theory Spec2Isabelle
  imports Complex_Main "HOL-Library.Multiset" "HOL-Library.Sublist"
begin

section \<open>The City collection (models/City.js)\<close>

text \<open>
  An ObjectId is a 96-bit value; it is kept as a natural number. Dates are milliseconds
  since the epoch. A document of the collection has the fields of \<open>citySchema\<close>;
  \<open>country\<close> is the only one that may be absent.
\<close>

type_synonym objectId = nat

record city =
  city_id :: objectId
  userId :: objectId
  cityName :: string
  country :: "string option"
  favorite :: bool
  addedAt :: int

text \<open>
  The collection, in insertion order. The database is taken to be reachable: a model call
  throws only the errors below.
\<close>

type_synonym collection = "city list"

text \<open>
  The errors a model call can throw: the server's duplicate-key error (the only one that
  carries \<open>code = 11000\<close>), a schema validation error, and the error of a value that
  does not cast to the type of its path.
\<close>

datatype error = DuplicateKey | ValidationError | CastError

fun code :: "error \<Rightarrow> nat option" where
  "code DuplicateKey = Some 11000"
| "code ValidationError = None"
| "code CastError = None"

text \<open>
  A string casts to an ObjectId when it is 24 hexadecimal digits; the value is the number
  they spell. (Drivers before version 5 of the BSON library also read a string of 12
  characters as the 12 bytes of an id; the theorems below only use whether the cast
  succeeds, and the string \<open>abc\<close> casts in no version.)
\<close>

definition isHexDigit :: "char \<Rightarrow> bool" where
  "isHexDigit c = (c \<in> set ''0123456789abcdefABCDEF'')"

definition hexDigit :: "char \<Rightarrow> nat" where
  "hexDigit c =
     (let n = (of_char c :: nat)
      in if 48 \<le> n \<and> n \<le> 57 then n - 48
         else if 97 \<le> n \<and> n \<le> 102 then n - 87
         else n - 55)"

definition castObjectId :: "string \<Rightarrow> objectId option" where
  "castObjectId s =
     (if length s = 24 \<and> list_all isHexDigit s
      then Some (foldl (\<lambda>a c. 16 * a + hexDigit c) 0 s)
      else None)"

text \<open>
  \<open>City.create\<close>. The document gets the generated id \<open>oid\<close> and \<open>addedAt = now\<close>
  (the schema default \<open>Date.now\<close>); \<open>favorite\<close> defaults to false. Validation runs
  before the write: \<open>cityName\<close> is required, and a required string must be present and
  non-empty. The write is refused with the duplicate-key error when the \<open>_id\<close> index or
  the unique index \<open>{userId: 1, cityName: 1}\<close> already holds the key.
\<close>

definition City_create ::
  "collection \<Rightarrow> objectId \<Rightarrow> int \<Rightarrow> objectId \<Rightarrow> string option \<Rightarrow> string option
     \<Rightarrow> error + (city \<times> collection)" where
  "City_create db oid now uid name ctry =
     (case name of
        None \<Rightarrow> Inl ValidationError
      | Some n \<Rightarrow>
          if n = [] then Inl ValidationError
          else if list_ex (\<lambda>d. city_id d = oid \<or> (userId d = uid \<and> cityName d = n)) db
          then Inl DuplicateKey
          else
            let doc = \<lparr>city_id = oid, userId = uid, cityName = n, country = ctry,
                       favorite = False, addedAt = now\<rparr>
            in Inr (doc, db @ [doc]))"

text \<open>\<open>City.find({userId})\<close> and its \<open>.sort({addedAt: -1})\<close>.\<close>

definition City_find :: "collection \<Rightarrow> objectId \<Rightarrow> city list" where
  "City_find db uid = filter (\<lambda>d. userId d = uid) db"

definition sort_addedAt_desc :: "city list \<Rightarrow> city list" where
  "sort_addedAt_desc ds = sort_key (\<lambda>d. - addedAt d) ds"

text \<open>\<open>City.findOne({_id, userId})\<close>: the first document matching both fields.\<close>

definition City_findOne :: "collection \<Rightarrow> objectId \<Rightarrow> objectId \<Rightarrow> city option" where
  "City_findOne db i uid = find (\<lambda>d. city_id d = i \<and> userId d = uid) db"

text \<open>
  \<open>doc.save()\<close> after \<open>favorite\<close> was assigned: the modified path is written to the
  document stored under the same \<open>_id\<close>. \<open>doc.deleteOne()\<close> removes the document
  stored under that \<open>_id\<close>.
\<close>

fun save :: "city \<Rightarrow> collection \<Rightarrow> collection" where
  "save c [] = []"
| "save c (d # ds) =
     (if city_id d = city_id c then d\<lparr>favorite := favorite c\<rparr> # ds else d # save c ds)"

fun deleteOne :: "city \<Rightarrow> collection \<Rightarrow> collection" where
  "deleteOne c [] = []"
| "deleteOne c (d # ds) = (if city_id d = city_id c then ds else d # deleteOne c ds)"

text \<open>
  What the indexes and the schema guarantee of a stored collection: ids are unique, the
  pair (userId, cityName) is unique, and no name is empty.
\<close>

definition store_ok :: "collection \<Rightarrow> bool" where
  "store_ok db =
     (distinct (map city_id db) \<and>
      distinct (map (\<lambda>d. (userId d, cityName d)) db) \<and>
      list_all (\<lambda>d. cityName d \<noteq> []) db)"

section \<open>The weather provider\<close>

text \<open>
  A number of the language: a finite one (an exact rational, as every finite double is),
  \<open>NaN\<close>, or an infinity. In a JSON response \<open>NaN\<close> and the infinities are written
  as \<open>null\<close>.
\<close>

datatype jsnum = Num rat | NaN | PosInfinity | NegInfinity

text \<open>
  The part of the provider's JSON that the controller reads. Nothing is checked by the
  controller, so every field may be missing.
  \<^item> A field that the controller copies (\<open>datetime\<close>, \<open>conditions\<close> and \<open>icon\<close> of a
    day, \<open>humidity\<close> and \<open>windspeed\<close>) is an option, \<open>None\<close> when it is absent.
  \<^item> A field that the controller hands to \<open>Math.round\<close> (\<open>temp\<close>, \<open>feelslike\<close>,
    \<open>tempmin\<close>, \<open>tempmax\<close>) is kept as the number that the language converts its
    value to: \<open>NaN\<close> when the field is absent or holds no number.
  \<^item> A field whose absence makes the controller throw is an option: \<open>currentConditions\<close>,
    \<open>days\<close>, and the \<open>conditions\<close> of the current conditions, on which
    \<open>toLowerCase\<close> is called (\<open>None\<close> when it is absent or not a string).
  The entries of \<open>days\<close> are objects.
\<close>

record day =
  datetime :: "string option"
  tempmin :: jsnum
  tempmax :: jsnum
  day_conditions :: "string option"
  icon :: "string option"

record current =
  temp :: jsnum
  conditions :: "string option"
  feelslike :: jsnum
  cur_humidity :: "rat option"
  windspeed :: "rat option"

record data =
  currentConditions :: "current option"
  days :: "day list option"

text \<open>
  How one \<open>axios.get\<close> ends: the promise resolves with the response data, rejects, or
  never settles. The request configuration of the controller holds \<open>params\<close> only, so no
  timeout turns a call that never settles into a rejection.
\<close>

datatype outcome = Resolved data | Rejected | Pending

text \<open>The provider, by the city name placed in the request URL.\<close>

type_synonym provider = "string \<Rightarrow> outcome"

section \<open>Library functions of the language\<close>

text \<open>
  \<open>Math.round\<close>: of a finite number the nearest integer, a tie going towards plus
  infinity; \<open>NaN\<close> and the infinities are returned as they are. It never throws.
\<close>

fun Math_round :: "jsnum \<Rightarrow> jsnum" where
  "Math_round (Num x) = Num (of_int \<lfloor>x + 1 / 2\<rfloor>)"
| "Math_round NaN = NaN"
| "Math_round PosInfinity = PosInfinity"
| "Math_round NegInfinity = NegInfinity"

text \<open>
  \<open>String.prototype.toLowerCase\<close> follows the case mappings of Unicode, a table of the
  language's library. The controller's functions below take it as the parameter
  \<open>toLowerCase\<close>, as they take the provider.
\<close>

text \<open>\<open>Array.prototype.slice(b, e)\<close> for indices that are not negative.\<close>

definition slice :: "nat \<Rightarrow> nat \<Rightarrow> 'a list \<Rightarrow> 'a list" where
  "slice b e xs = drop b (take e xs)"

text \<open>
  \<open>Promise.all\<close> over branches none of which rejects: it resolves with all the results,
  in the order of the input, once every branch has resolved, and stays pending otherwise.
\<close>

fun Promise_all :: "'a option list \<Rightarrow> 'a list option" where
  "Promise_all [] = Some []"
| "Promise_all (None # ps) = None"
| "Promise_all (Some x # ps) = (case Promise_all ps of None \<Rightarrow> None | Some xs \<Rightarrow> Some (x # xs))"

section \<open>The controller (controllers/cityController.js)\<close>

text \<open>
  A request as the controller sees it: \<open>req.userId\<close>, attached by the authentication
  middleware from the verified token, \<open>req.params.id\<close> (a path segment on the two routes
  that have one), and the JSON body, a map from field names to values. Where two
  records of the source share a field name, the fields carry a prefix here
  (\<open>req_userId\<close>, \<open>city_id\<close>, \<open>rec_id\<close>, \<open>fc_description\<close>).
\<close>

record request =
  req_userId :: objectId
  params_id :: string
  body :: "string \<rightharpoonup> string"

text \<open>
  The records assembled by \<open>getCities\<close>; \<open>None\<close> is a \<open>null\<close> or an absent field.
\<close>

record forecastDay =
  date :: "string option"
  minTemp :: jsnum
  maxTemp :: jsnum
  fc_description :: "string option"
  fc_icon :: "string option"

record currentWeather =
  temperature :: "jsnum option"
  description :: string
  feelsLike :: "jsnum option"
  humidity :: "rat option"
  windSpeed :: "rat option"

record cityRecord =
  rec_id :: objectId
  rec_cityName :: string
  isFavorite :: bool
  currentWeather :: currentWeather
  forecast :: "forecastDay list"

text \<open>
  A JSON response body: \<open>{message}\<close> with a literal text, \<open>{message: error.message}\<close>,
  a city document, or \<open>{favorites, cities}\<close>.
\<close>

datatype json =
    Message string
  | ErrorMessage error
  | CityJson city
  | Listing "cityRecord list" "cityRecord list"

type_synonym response = "nat \<times> json"

text \<open>\<open>createCity\<close>: the response and the collection afterwards.\<close>

definition createCity ::
  "request \<Rightarrow> objectId \<Rightarrow> int \<Rightarrow> collection \<Rightarrow> response \<times> collection" where
  "createCity req oid now db =
     (case City_create db oid now (req_userId req) (body req ''cityName'') (body req ''country'') of
        Inr (c, db') \<Rightarrow> ((201, CityJson c), db')
      | Inl e \<Rightarrow>
          if code e = Some 11000 then ((400, Message ''City already added''), db)
          else ((500, ErrorMessage e), db))"

text \<open>The body of the \<open>try\<close> of one branch of \<open>getCities\<close>; \<open>None\<close> when it throws.\<close>

definition forecastDays :: "day list \<Rightarrow> forecastDay list" where
  "forecastDays ds =
     map (\<lambda>d. \<lparr>date = datetime d, minTemp = Math_round (tempmin d),
               maxTemp = Math_round (tempmax d), fc_description = day_conditions d,
               fc_icon = icon d\<rparr>) (slice 1 6 ds)"

definition weatherOf ::
  "(string \<Rightarrow> string) \<Rightarrow> data \<Rightarrow> (currentWeather \<times> forecastDay list) option" where
  "weatherOf toLowerCase r =
     (case days r of
        None \<Rightarrow> None
      | Some ds \<Rightarrow>
          (case currentConditions r of
             None \<Rightarrow> None
           | Some cur \<Rightarrow>
               (case conditions cur of
                  None \<Rightarrow> None
                | Some cond \<Rightarrow>
                    Some (\<lparr>temperature = Some (Math_round (temp cur)),
                           description = toLowerCase cond,
                           feelsLike = Some (Math_round (feelslike cur)),
                           humidity = cur_humidity cur,
                           windSpeed = windspeed cur\<rparr>,
                          forecastDays ds))))"

text \<open>The record of the \<open>catch\<close> of a branch.\<close>

definition unavailable :: "city \<Rightarrow> cityRecord" where
  "unavailable c =
     \<lparr>rec_id = city_id c, rec_cityName = cityName c, isFavorite = favorite c,
      currentWeather = \<lparr>temperature = None, description = ''unavailable'',
                        feelsLike = None, humidity = None, windSpeed = None\<rparr>,
      forecast = []\<rparr>"

text \<open>A fetch fails when the call rejects or the \<open>try\<close> throws on the data.\<close>

fun fetch_fails :: "(string \<Rightarrow> string) \<Rightarrow> outcome \<Rightarrow> bool" where
  "fetch_fails toLowerCase Rejected = True"
| "fetch_fails toLowerCase (Resolved r) = (weatherOf toLowerCase r = None)"
| "fetch_fails toLowerCase Pending = False"

text \<open>One branch of the \<open>cities.map\<close>; \<open>None\<close> when the branch never settles.\<close>

fun cityWithWeather :: "(string \<Rightarrow> string) \<Rightarrow> outcome \<Rightarrow> city \<Rightarrow> cityRecord option" where
  "cityWithWeather toLowerCase Pending c = None"
| "cityWithWeather toLowerCase Rejected c = Some (unavailable c)"
| "cityWithWeather toLowerCase (Resolved r) c =
     (case weatherOf toLowerCase r of
        None \<Rightarrow> Some (unavailable c)
      | Some (cw, fc) \<Rightarrow>
          Some \<lparr>rec_id = city_id c, rec_cityName = cityName c, isFavorite = favorite c,
                currentWeather = cw, forecast = fc\<rparr>)"

text \<open>The owner-scoped listing of line 25.\<close>

definition listByOwner :: "collection \<Rightarrow> objectId \<Rightarrow> city list" where
  "listByOwner db uid = sort_addedAt_desc (City_find db uid)"

text \<open>\<open>getCities\<close>; \<open>None\<close> when no response is ever sent.\<close>

definition getCities ::
  "(string \<Rightarrow> string) \<Rightarrow> request \<Rightarrow> provider \<Rightarrow> collection \<Rightarrow> response option" where
  "getCities toLowerCase req axios_get db =
     (case Promise_all (map (\<lambda>c. cityWithWeather toLowerCase (axios_get (cityName c)) c)
                            (listByOwner db (req_userId req))) of
        None \<Rightarrow> None
      | Some citiesWithWeather \<Rightarrow>
          Some (200, Listing (filter isFavorite citiesWithWeather) citiesWithWeather))"

text \<open>\<open>toggleFavorite\<close> and \<open>deleteCity\<close>: the response and the collection afterwards.\<close>

definition toggleFavorite :: "request \<Rightarrow> collection \<Rightarrow> response \<times> collection" where
  "toggleFavorite req db =
     (case castObjectId (params_id req) of
        None \<Rightarrow> ((500, ErrorMessage CastError), db)
      | Some i \<Rightarrow>
          (case City_findOne db i (req_userId req) of
             None \<Rightarrow> ((404, Message ''City not found''), db)
           | Some c \<Rightarrow>
               let c' = c\<lparr>favorite := \<not> favorite c\<rparr>
               in ((200, CityJson c'), save c' db)))"

definition deleteCity :: "request \<Rightarrow> collection \<Rightarrow> response \<times> collection" where
  "deleteCity req db =
     (case castObjectId (params_id req) of
        None \<Rightarrow> ((500, ErrorMessage CastError), db)
      | Some i \<Rightarrow>
          (case City_findOne db i (req_userId req) of
             None \<Rightarrow> ((404, Message ''City not found''), db)
           | Some c \<Rightarrow> ((200, Message ''City removed''), deleteOne c db)))"

section \<open>Example data\<close>

text \<open>
  A collection of two owners, requests of both, a provider response of seven days, one
  of three days whose current conditions have no \<open>temp\<close>, and providers that reject
  for Paris, resolve for every city, never settle for Paris, and reject for every city.
  \<open>ex_lower\<close> lowers the letters A to Z, as \<open>toLowerCase\<close> does on the strings of
  the examples. The later definitions are the document and the record that the example
  requests are expected to produce.
\<close>

definition ex_paris :: city where
  "ex_paris = \<lparr>city_id = 1, userId = 1, cityName = ''Paris'', country = Some ''FR'',
                favorite = True, addedAt = 100\<rparr>"

definition ex_oslo :: city where
  "ex_oslo = \<lparr>city_id = 2, userId = 1, cityName = ''Oslo'', country = None,
               favorite = False, addedAt = 200\<rparr>"

definition ex_lima :: city where
  "ex_lima = \<lparr>city_id = 3, userId = 2, cityName = ''Lima'', country = None,
               favorite = False, addedAt = 150\<rparr>"

definition ex_db :: collection where
  "ex_db = [ex_paris, ex_oslo, ex_lima]"

definition ex_req :: request where
  "ex_req = \<lparr>req_userId = 1, params_id = ''000000000000000000000001'',
              body = [''cityName'' \<mapsto> ''Paris'']\<rparr>"

definition ex_req_owner_in_body :: request where
  "ex_req_owner_in_body =
     \<lparr>req_userId = 1, params_id = [],
      body = [''cityName'' \<mapsto> ''Rome'', ''userId'' \<mapsto> ''000000000000000000000002'',
              ''ownerId'' \<mapsto> ''000000000000000000000002'']\<rparr>"

definition ex_req_plain :: request where
  "ex_req_plain = \<lparr>req_userId = 1, params_id = [], body = [''cityName'' \<mapsto> ''Rome'']\<rparr>"

definition ex_other_req :: request where
  "ex_other_req = \<lparr>req_userId = 2, params_id = ''000000000000000000000001'',
                    body = Map.empty\<rparr>"

definition ex_bad_req :: request where
  "ex_bad_req = \<lparr>req_userId = 1, params_id = ''abc'', body = Map.empty\<rparr>"

definition ex_lower :: "string \<Rightarrow> string" where
  "ex_lower s =
     map (\<lambda>c. let n = (of_char c :: nat)
               in if 65 \<le> n \<and> n \<le> 90 then char_of (n + 32) else c) s"

definition ex_day :: "string \<Rightarrow> rat \<Rightarrow> rat \<Rightarrow> day" where
  "ex_day d lo hi = \<lparr>datetime = Some d, tempmin = Num lo, tempmax = Num hi,
                      day_conditions = Some ''Clear'', icon = Some ''clear-day''\<rparr>"

definition ex_days :: "day list" where
  "ex_days = [ex_day ''2024-05-01'' (101 / 10) (203 / 10), ex_day ''2024-05-02'' (23 / 2) (43 / 2),
              ex_day ''2024-05-03'' (- 5 / 2) (7 / 2), ex_day ''2024-05-04'' 9 19,
              ex_day ''2024-05-05'' (49 / 5) (96 / 5), ex_day ''2024-05-06'' 8 (37 / 2),
              ex_day ''2024-05-07'' 7 17]"

definition ex_current :: current where
  "ex_current = \<lparr>temp = Num (127 / 5), conditions = Some ''Partly Cloudy'',
                  feelslike = Num (49 / 2), cur_humidity = Some 60, windspeed = Some 12\<rparr>"


definition ex_data :: data where
  "ex_data = \<lparr>currentConditions = Some ex_current, days = Some ex_days\<rparr>"


definition ex_provider :: provider where
  "ex_provider n = (if n = ''Paris'' then Rejected else Resolved ex_data)"

definition ex_all_resolved :: provider where
  "ex_all_resolved n = Resolved ex_data"

definition ex_hanging :: provider where
  "ex_hanging n = (if n = ''Paris'' then Pending else Resolved ex_data)"

definition ex_down :: provider where
  "ex_down n = Rejected"

definition ex_rome :: city where
  "ex_rome = \<lparr>city_id = 4, userId = 1, cityName = ''Rome'', country = None,
               favorite = False, addedAt = 300\<rparr>"



section \<open>The listing\<close>

lemma set_listByOwner: "set (listByOwner db uid) = {d \<in> set db. userId d = uid}"
  by (auto simp: listByOwner_def sort_addedAt_desc_def City_find_def)

lemma mset_listByOwner: "mset (listByOwner db uid) = mset (filter (\<lambda>d. userId d = uid) db)"
  by (simp add: listByOwner_def sort_addedAt_desc_def City_find_def)

lemma sorted_listByOwner: "sorted_wrt (\<lambda>a b. addedAt b \<le> addedAt a) (listByOwner db uid)"
proof -
  have "sorted (map (\<lambda>d. - addedAt d) (listByOwner db uid))"
    by (simp add: listByOwner_def sort_addedAt_desc_def)
  then show ?thesis by (simp add: sorted_map sorted_wrt_map)
qed

lemma Promise_all_map:
  "Promise_all (map f xs) =
     (if list_all (\<lambda>x. f x \<noteq> None) xs then Some (map (\<lambda>x. the (f x)) xs) else None)"
proof (induction xs)
  case Nil
  show ?case by simp
next
  case (Cons a xs)
  then show ?case by (cases "f a") auto
qed

lemma cityWithWeather_None: "(cityWithWeather toLowerCase out c = None) = (out = Pending)"
  by (cases out) (auto split: option.splits)

lemma cityWithWeather_fails: "fetch_fails toLowerCase out \<Longrightarrow> cityWithWeather toLowerCase out c = Some (unavailable c)"
  by (cases out) auto

lemma cityWithWeather_id:
  "cityWithWeather toLowerCase out c = Some r \<Longrightarrow>
     rec_id r = city_id c \<and> rec_cityName r = cityName c \<and> isFavorite r = favorite c"
  by (cases out) (auto simp: unavailable_def split: option.splits)

lemma getCities_eq:
  "getCities toLowerCase req w db =
     (if list_all (\<lambda>c. w (cityName c) \<noteq> Pending) (listByOwner db (req_userId req))
      then Some (200, Listing
             (filter isFavorite (map (\<lambda>c. the (cityWithWeather toLowerCase (w (cityName c)) c))
                                     (listByOwner db (req_userId req))))
             (map (\<lambda>c. the (cityWithWeather toLowerCase (w (cityName c)) c))
                  (listByOwner db (req_userId req))))
      else None)"
  by (simp add: getCities_def Promise_all_map cityWithWeather_None)

lemma getCities_settled:
  assumes "list_all (\<lambda>c. w (cityName c) \<noteq> Pending) (listByOwner db (req_userId req))"
  shows "\<exists>cs. getCities toLowerCase req w db = Some (200, Listing (filter isFavorite cs) cs)
           \<and> length cs = length (listByOwner db (req_userId req))
           \<and> (\<forall>i < length cs.
                 cityWithWeather toLowerCase (w (cityName (listByOwner db (req_userId req) ! i)))
                                 (listByOwner db (req_userId req) ! i) = Some (cs ! i))"
proof -
  let ?os = "listByOwner db (req_userId req)"
  let ?cs = "map (\<lambda>c. the (cityWithWeather toLowerCase (w (cityName c)) c)) ?os"
  from assms have resp: "getCities toLowerCase req w db = Some (200, Listing (filter isFavorite ?cs) ?cs)"
    by (simp only: getCities_eq if_True)
  have len: "length ?cs = length ?os" by simp
  have "cityWithWeather toLowerCase (w (cityName (?os ! i))) (?os ! i) = Some (?cs ! i)" if "i < length ?cs" for i
  proof -
    from that have i: "i < length ?os" by simp
    then have "?os ! i \<in> set ?os" by simp
    with assms have "w (cityName (?os ! i)) \<noteq> Pending" by (simp add: list_all_iff)
    then have "cityWithWeather toLowerCase (w (cityName (?os ! i))) (?os ! i) \<noteq> None"
      by (simp add: cityWithWeather_None)
    with i show ?thesis by auto
  qed
  with resp len show ?thesis by blast
qed

lemma getCities_Some:
  assumes "getCities toLowerCase req w db = Some resp"
  shows "list_all (\<lambda>c. w (cityName c) \<noteq> Pending) (listByOwner db (req_userId req))"
proof (rule ccontr)
  assume "\<not> ?thesis"
  then have "getCities toLowerCase req w db = None" by (simp only: getCities_eq if_False)
  with assms show False by simp
qed

lemma getCities_records:
  assumes "getCities toLowerCase req w db = Some resp"
  shows "\<exists>cs. resp = (200, Listing (filter isFavorite cs) cs)
           \<and> map rec_id cs = map city_id (listByOwner db (req_userId req))
           \<and> map isFavorite cs = map favorite (listByOwner db (req_userId req))"
proof -
  let ?os = "listByOwner db (req_userId req)"
  from getCities_settled [OF getCities_Some [OF assms]]
  obtain cs where resp: "getCities toLowerCase req w db = Some (200, Listing (filter isFavorite cs) cs)"
    and len: "length cs = length ?os"
    and each: "\<forall>i < length cs. cityWithWeather toLowerCase (w (cityName (?os ! i))) (?os ! i) = Some (cs ! i)"
    by blast
  have "map rec_id cs = map city_id ?os"
    using len each by (intro nth_equalityI) (auto dest: cityWithWeather_id)
  moreover have "map isFavorite cs = map favorite ?os"
    using len each by (intro nth_equalityI) (auto dest: cityWithWeather_id)
  moreover from resp assms have "resp = (200, Listing (filter isFavorite cs) cs)" by simp
  ultimately show ?thesis by blast
qed

section \<open>The collection under the writes of the controller\<close>

lemma same_id:
  "distinct (map city_id db) \<Longrightarrow> c \<in> set db \<Longrightarrow> d \<in> set db \<Longrightarrow> city_id d = city_id c \<Longrightarrow> d = c"
  by (auto simp: distinct_map inj_on_def)

lemma findOne_Some:
  "City_findOne db i uid = Some c \<Longrightarrow> c \<in> set db \<and> city_id c = i \<and> userId c = uid"
  by (auto simp: City_findOne_def find_Some_iff)

lemma findOne_None:
  "(City_findOne db i uid = None) = (\<not> (\<exists>d\<in>set db. city_id d = i \<and> userId d = uid))"
  by (auto simp: City_findOne_def find_None_iff)

lemma findOne_member:
  assumes "distinct (map city_id db)" and "c \<in> set db"
  shows "City_findOne db (city_id c) (userId c) = Some c"
proof (cases "City_findOne db (city_id c) (userId c)")
  case None
  with assms show ?thesis by (auto simp: findOne_None)
next
  case (Some d)
  then have "d \<in> set db" "city_id d = city_id c" using findOne_Some by blast+
  with assms have "d = c" by (rule same_id)
  with Some show ?thesis by simp
qed

lemma map_city_id_save: "map city_id (save c db) = map city_id db"
  by (induction db) auto

lemma map_key_save:
  "map (\<lambda>d. (userId d, cityName d)) (save c db) = map (\<lambda>d. (userId d, cityName d)) db"
  by (induction db) auto

lemma save_same:
  "distinct (map city_id db) \<Longrightarrow> c \<in> set db \<Longrightarrow> city_id c' = city_id c \<Longrightarrow>
     favorite c' = favorite c \<Longrightarrow> save c' db = db"
proof (induction db)
  case Nil
  then show ?case by simp
next
  case (Cons d ds)
  show ?case
  proof (cases "city_id d = city_id c")
    case True
    with Cons.prems have "d = c" by (intro same_id [of "d # ds"]) auto
    with Cons.prems show ?thesis by simp
  next
    case False
    with Cons show ?thesis by auto
  qed
qed

lemma save_save: "city_id c' = city_id c'' \<Longrightarrow> save c' (save c'' db) = save c' db"
  by (induction db) auto

lemma save_member:
  "distinct (map city_id db) \<Longrightarrow> c \<in> set db \<Longrightarrow>
     c\<lparr>favorite := b\<rparr> \<in> set (save (c\<lparr>favorite := b\<rparr>) db)"
proof (induction db)
  case Nil
  then show ?case by simp
next
  case (Cons d ds)
  show ?case
  proof (cases "city_id d = city_id c")
    case True
    with Cons.prems have "d = c" by (intro same_id [of "d # ds"]) auto
    then show ?thesis by simp
  next
    case False
    with Cons show ?thesis by auto
  qed
qed

lemma save_others:
  "distinct (map city_id db) \<Longrightarrow> c \<in> set db \<Longrightarrow> city_id c' = city_id c \<Longrightarrow> userId c = uid \<Longrightarrow>
     filter (\<lambda>d. userId d \<noteq> uid) (save c' db) = filter (\<lambda>d. userId d \<noteq> uid) db"
proof (induction db)
  case Nil
  then show ?case by simp
next
  case (Cons d ds)
  show ?case
  proof (cases "city_id d = city_id c")
    case True
    with Cons.prems have "d = c" by (intro same_id [of "d # ds"]) auto
    with Cons.prems show ?thesis by simp
  next
    case False
    with Cons show ?thesis by auto
  qed
qed

lemma deleteOne_others:
  "distinct (map city_id db) \<Longrightarrow> c \<in> set db \<Longrightarrow> userId c = uid \<Longrightarrow>
     filter (\<lambda>d. userId d \<noteq> uid) (deleteOne c db) = filter (\<lambda>d. userId d \<noteq> uid) db"
proof (induction db)
  case Nil
  then show ?case by simp
next
  case (Cons d ds)
  show ?case
  proof (cases "city_id d = city_id c")
    case True
    with Cons.prems have "d = c" by (intro same_id [of "d # ds"]) auto
    with Cons.prems show ?thesis by simp
  next
    case False
    with Cons show ?thesis by auto
  qed
qed

lemma set_deleteOne: "set (deleteOne c db) \<subseteq> set db"
  by (induction db) auto

lemma deleteOne_removes:
  "distinct (map city_id db) \<Longrightarrow> city_id c \<notin> city_id ` set (deleteOne c db)"
  by (induction db) auto

text \<open>The guarantee of the indexes holds of the empty collection and is kept by every write.\<close>

lemma store_ok_Nil: "store_ok []"
  by (simp add: store_ok_def)

lemma store_ok_save: "store_ok db \<Longrightarrow> store_ok (save c db)"
proof -
  assume ok: "store_ok db"
  have "map cityName (save c db) = map cityName db" by (induction db) auto
  then have "set (map cityName (save c db)) = set (map cityName db)" by simp
  then have "(\<forall>d\<in>set (save c db). cityName d \<noteq> []) = (\<forall>d\<in>set db. cityName d \<noteq> [])"
    by (metis (no_types, lifting) image_iff list.set_map)
  with ok show ?thesis
    by (simp add: store_ok_def map_city_id_save map_key_save list_all_iff)
qed

lemma distinct_map_deleteOne: "distinct (map f db) \<Longrightarrow> distinct (map f (deleteOne c db))"
proof (induction db)
  case Nil
  then show ?case by simp
next
  case (Cons d ds)
  have "f ` set (deleteOne c ds) \<subseteq> f ` set ds" using set_deleteOne by blast
  with Cons show ?case by auto
qed

lemma store_ok_deleteOne: "store_ok db \<Longrightarrow> store_ok (deleteOne c db)"
  using set_deleteOne [of c db]
  by (auto simp: store_ok_def distinct_map_deleteOne list_all_iff)

lemma store_ok_create:
  "store_ok db \<Longrightarrow> City_create db oid now uid name ctry = Inr (c, db') \<Longrightarrow> store_ok db'"
  by (auto simp: City_create_def store_ok_def list_ex_iff Let_def list_all_iff
           split: option.splits if_splits)

lemma store_ok_createCity: "store_ok db \<Longrightarrow> store_ok (snd (createCity req oid now db))"
  by (auto simp: createCity_def split: sum.splits dest: store_ok_create)

lemma store_ok_toggleFavorite: "store_ok db \<Longrightarrow> store_ok (snd (toggleFavorite req db))"
  by (auto simp: toggleFavorite_def Let_def store_ok_save split: option.splits)

lemma store_ok_deleteCity: "store_ok db \<Longrightarrow> store_ok (snd (deleteCity req db))"
  by (auto simp: deleteCity_def store_ok_deleteOne split: option.splits)

lemma toggleFavorite_found:
  assumes "castObjectId (params_id req) = Some i" and "City_findOne db i (req_userId req) = Some c"
  shows "toggleFavorite req db =
           ((200, CityJson (c\<lparr>favorite := \<not> favorite c\<rparr>)), save (c\<lparr>favorite := \<not> favorite c\<rparr>) db)"
  using assms by (simp add: toggleFavorite_def Let_def)

lemma deleteCity_found:
  assumes "castObjectId (params_id req) = Some i" and "City_findOne db i (req_userId req) = Some c"
  shows "deleteCity req db = ((200, Message ''City removed''), deleteOne c db)"
  using assms by (simp add: deleteCity_def)

lemma toggleFavorite_others:
  assumes "store_ok db"
  shows "filter (\<lambda>d. userId d \<noteq> req_userId req) (snd (toggleFavorite req db))
           = filter (\<lambda>d. userId d \<noteq> req_userId req) db"
proof (cases "castObjectId (params_id req)")
  case None
  then show ?thesis by (simp add: toggleFavorite_def)
next
  case (Some i)
  show ?thesis
  proof (cases "City_findOne db i (req_userId req)")
    case None
    with Some show ?thesis by (simp add: toggleFavorite_def)
  next
    case (Some c)
    then have c: "c \<in> set db" "userId c = req_userId req" using findOne_Some by blast+
    from assms have "distinct (map city_id db)" by (simp add: store_ok_def)
    then have "filter (\<lambda>d. userId d \<noteq> req_userId req) (save (c\<lparr>favorite := \<not> favorite c\<rparr>) db)
                 = filter (\<lambda>d. userId d \<noteq> req_userId req) db"
      using c by (intro save_others [of db c]) simp_all
    with toggleFavorite_found [OF \<open>castObjectId (params_id req) = Some i\<close> Some]
    show ?thesis by simp
  qed
qed

lemma deleteCity_others:
  assumes "store_ok db"
  shows "filter (\<lambda>d. userId d \<noteq> req_userId req) (snd (deleteCity req db))
           = filter (\<lambda>d. userId d \<noteq> req_userId req) db"
proof (cases "castObjectId (params_id req)")
  case None
  then show ?thesis by (simp add: deleteCity_def)
next
  case (Some i)
  show ?thesis
  proof (cases "City_findOne db i (req_userId req)")
    case None
    with Some show ?thesis by (simp add: deleteCity_def)
  next
    case (Some c)
    then have c: "c \<in> set db" "userId c = req_userId req" using findOne_Some by blast+
    from assms have "distinct (map city_id db)" by (simp add: store_ok_def)
    then have "filter (\<lambda>d. userId d \<noteq> req_userId req) (deleteOne c db)
                 = filter (\<lambda>d. userId d \<noteq> req_userId req) db"
      using c by (intro deleteOne_others [of db c]) simp_all
    with deleteCity_found [OF \<open>castObjectId (params_id req) = Some i\<close> Some]
    show ?thesis by simp
  qed
qed

lemma toggleFavorite_response_owner:
  "fst (toggleFavorite req db) = (st, CityJson c') \<Longrightarrow> userId c' = req_userId req"
  by (auto simp: toggleFavorite_def Let_def split: option.splits dest: findOne_Some)

lemma member_filter_others:
  "filter P db' = filter P db \<Longrightarrow> c \<in> set db \<Longrightarrow> P c \<Longrightarrow> c \<in> set db'"
proof -
  assume eq: "filter P db' = filter P db" and "c \<in> set db" and "P c"
  then have "c \<in> set (filter P db)" by simp
  with eq have "c \<in> set (filter P db')" by simp
  then show ?thesis by simp
qed

section \<open>Rounding and the forecast\<close>





section \<open>The claims\<close>

subsection \<open>Data isolation\<close>

text \<open>
  Claim C1. Let the collection satisfy its indexes and let \<open>c\<close> be a city of it whose
  owner is not the authenticated identity of the request. Then no record of a listing
  response carries the id of \<open>c\<close>, neither in \<open>cities\<close> nor in \<open>favorites\<close>;
  after a favorite toggle \<open>c\<close> is in the collection as it was, as is every document of
  every other owner, and a document in the toggle's response belongs to the requester;
  after a delete \<open>c\<close> and every document of every other owner are in the collection
  as they were.
\<close>

theorem data_isolation:
  assumes "store_ok db" and "c \<in> set db" and "userId c \<noteq> req_userId req"
  shows "(\<forall>st favs cs. getCities toLowerCase req w db = Some (st, Listing favs cs) \<longrightarrow>
            city_id c \<notin> rec_id ` set cs \<and> city_id c \<notin> rec_id ` set favs)
       \<and> c \<in> set (snd (toggleFavorite req db))
       \<and> filter (\<lambda>d. userId d \<noteq> req_userId req) (snd (toggleFavorite req db))
           = filter (\<lambda>d. userId d \<noteq> req_userId req) db
       \<and> (\<forall>st c'. fst (toggleFavorite req db) = (st, CityJson c') \<longrightarrow> userId c' = req_userId req)
       \<and> c \<in> set (snd (deleteCity req db))
       \<and> filter (\<lambda>d. userId d \<noteq> req_userId req) (snd (deleteCity req db))
           = filter (\<lambda>d. userId d \<noteq> req_userId req) db"
proof -
  from assms(1) have dist: "distinct (map city_id db)" by (simp add: store_ok_def)
  have listing: "city_id c \<notin> rec_id ` set cs \<and> city_id c \<notin> rec_id ` set favs"
    if resp: "getCities toLowerCase req w db = Some (st, Listing favs cs)" for st favs cs
  proof -
    from getCities_records [OF resp]
    have favs: "favs = filter isFavorite cs"
      and ids: "map rec_id cs = map city_id (listByOwner db (req_userId req))"
      by auto
    have "city_id c \<notin> city_id ` set (listByOwner db (req_userId req))"
    proof
      assume "city_id c \<in> city_id ` set (listByOwner db (req_userId req))"
      then obtain d where d: "d \<in> set db" "userId d = req_userId req" "city_id d = city_id c"
        by (auto simp: set_listByOwner)
      with dist assms(2) have "d = c" by (intro same_id [of db c d])
      with d assms(3) show False by simp
    qed
    moreover have "rec_id ` set cs = city_id ` set (listByOwner db (req_userId req))"
      using ids by (metis list.set_map)
    ultimately have "city_id c \<notin> rec_id ` set cs" by simp
    with favs show ?thesis by auto
  qed
  have t: "filter (\<lambda>d. userId d \<noteq> req_userId req) (snd (toggleFavorite req db))
             = filter (\<lambda>d. userId d \<noteq> req_userId req) db"
    using assms(1) by (rule toggleFavorite_others)
  have d: "filter (\<lambda>d. userId d \<noteq> req_userId req) (snd (deleteCity req db))
             = filter (\<lambda>d. userId d \<noteq> req_userId req) db"
    using assms(1) by (rule deleteCity_others)
  have tm: "c \<in> set (snd (toggleFavorite req db))"
    using t assms(2,3) by (rule member_filter_others)
  have dm: "c \<in> set (snd (deleteCity req db))"
    using d assms(2,3) by (rule member_filter_others)
  have ro: "\<forall>st c'. fst (toggleFavorite req db) = (st, CityJson c') \<longrightarrow> userId c' = req_userId req"
    using toggleFavorite_response_owner by blast
  from listing t d tm dm ro show ?thesis by blast
qed

text \<open>
  The second owner asks for the toggle and the delete of the id of the first owner's
  Paris: the documents of the first owner stay, Paris among them.
\<close>

theorem data_isolation_witness:
  "store_ok ex_db \<and> ex_paris \<in> set ex_db \<and> userId ex_paris \<noteq> req_userId ex_other_req
   \<and> getCities ex_lower ex_other_req ex_down ex_db = Some (200, Listing [] [unavailable ex_lima])
   \<and> city_id ex_paris \<notin> rec_id ` set [unavailable ex_lima]
   \<and> ex_paris \<in> set (snd (toggleFavorite ex_other_req ex_db))
   \<and> ex_paris \<in> set (snd (deleteCity ex_other_req ex_db))
   \<and> filter (\<lambda>d. userId d \<noteq> req_userId ex_other_req) (snd (toggleFavorite ex_other_req ex_db))
       = filter (\<lambda>d. userId d \<noteq> req_userId ex_other_req) ex_db
   \<and> filter (\<lambda>d. userId d \<noteq> req_userId ex_other_req) (snd (deleteCity ex_other_req ex_db))
       = filter (\<lambda>d. userId d \<noteq> req_userId ex_other_req) ex_db"
proof -
  have h1: "store_ok ex_db" by code_simp
  have h2: "ex_paris \<in> set ex_db" by code_simp
  have h3: "userId ex_paris \<noteq> req_userId ex_other_req" by code_simp
  have l: "getCities ex_lower ex_other_req ex_down ex_db = Some (200, Listing [] [unavailable ex_lima])"
    by code_simp
  from data_isolation [OF h1 h2 h3, where w = ex_down and toLowerCase = ex_lower] h1 h2 h3 l show ?thesis by blast
qed

subsection \<open>Failure of one weather fetch\<close>

text \<open>
  Claim C2. Let every weather call for the owner's cities settle, under a provider \<open>w\<close>
  and under a provider \<open>w'\<close>. Both listings answer 200 with one record for each of the
  owner's cities, in the order of the owner-scoped listing. Under \<open>w\<close>, the record of a
  city whose fetch failed has the city's id, name and favorite flag, temperature
  \<open>null\<close>, description \<open>unavailable\<close> and an empty forecast. The record of a city
  for which \<open>w\<close> and \<open>w'\<close> end the same way is the same in both listings, whatever
  the two providers do for the other cities: a failure changes no other record and does
  not abort the batch.
\<close>

theorem weather_failure_isolated:
  assumes "list_all (\<lambda>c. w (cityName c) \<noteq> Pending) (listByOwner db (req_userId req))"
    and "list_all (\<lambda>c. w' (cityName c) \<noteq> Pending) (listByOwner db (req_userId req))"
  shows "\<exists>cs cs'.
           getCities toLowerCase req w db = Some (200, Listing (filter isFavorite cs) cs)
         \<and> getCities toLowerCase req w' db = Some (200, Listing (filter isFavorite cs') cs')
         \<and> length cs = length (listByOwner db (req_userId req))
         \<and> length cs' = length (listByOwner db (req_userId req))
         \<and> (\<forall>i < length (listByOwner db (req_userId req)).
              (fetch_fails toLowerCase (w (cityName (listByOwner db (req_userId req) ! i))) \<longrightarrow>
                 rec_id (cs ! i) = city_id (listByOwner db (req_userId req) ! i)
               \<and> rec_cityName (cs ! i) = cityName (listByOwner db (req_userId req) ! i)
               \<and> isFavorite (cs ! i) = favorite (listByOwner db (req_userId req) ! i)
               \<and> temperature (currentWeather (cs ! i)) = None
               \<and> description (currentWeather (cs ! i)) = ''unavailable''
               \<and> forecast (cs ! i) = [])
            \<and> (w (cityName (listByOwner db (req_userId req) ! i))
                  = w' (cityName (listByOwner db (req_userId req) ! i)) \<longrightarrow> cs ! i = cs' ! i))"
proof -
  let ?os = "listByOwner db (req_userId req)"
  from getCities_settled [OF assms(1)]
  obtain cs where resp: "getCities toLowerCase req w db = Some (200, Listing (filter isFavorite cs) cs)"
    and len: "length cs = length ?os"
    and each: "\<forall>i < length cs. cityWithWeather toLowerCase (w (cityName (?os ! i))) (?os ! i) = Some (cs ! i)"
    by blast
  from getCities_settled [OF assms(2)]
  obtain cs' where resp': "getCities toLowerCase req w' db = Some (200, Listing (filter isFavorite cs') cs')"
    and len': "length cs' = length ?os"
    and each': "\<forall>i < length cs'. cityWithWeather toLowerCase (w' (cityName (?os ! i))) (?os ! i) = Some (cs' ! i)"
    by blast
  have fail: "rec_id (cs ! i) = city_id (?os ! i) \<and> rec_cityName (cs ! i) = cityName (?os ! i)
               \<and> isFavorite (cs ! i) = favorite (?os ! i)
               \<and> temperature (currentWeather (cs ! i)) = None
               \<and> description (currentWeather (cs ! i)) = ''unavailable''
               \<and> forecast (cs ! i) = []"
    if "i < length ?os" and "fetch_fails toLowerCase (w (cityName (?os ! i)))" for i
  proof -
    from that(1) len each
    have "cityWithWeather toLowerCase (w (cityName (?os ! i))) (?os ! i) = Some (cs ! i)" by simp
    with cityWithWeather_fails [OF that(2), of "?os ! i"]
    have "cs ! i = unavailable (?os ! i)" by simp
    then show ?thesis by (simp add: unavailable_def)
  qed
  have same: "cs ! i = cs' ! i"
    if "i < length ?os" and "w (cityName (?os ! i)) = w' (cityName (?os ! i))" for i
  proof -
    from that(1) len each
    have "cityWithWeather toLowerCase (w (cityName (?os ! i))) (?os ! i) = Some (cs ! i)" by simp
    moreover from that(1) len' each'
    have "cityWithWeather toLowerCase (w' (cityName (?os ! i))) (?os ! i) = Some (cs' ! i)" by simp
    ultimately show ?thesis using that(2) by simp
  qed
  from resp resp' len len' fail same show ?thesis by blast
qed

text \<open>
  The provider that rejects for Paris against the provider that resolves for every city:
  the record of Oslo is the same under both, the record of Paris is the placeholder.
\<close>

theorem weather_failure_isolated_witness:
  "list_all (\<lambda>c. ex_provider (cityName c) \<noteq> Pending) (listByOwner ex_db (req_userId ex_req))
   \<and> list_all (\<lambda>c. ex_all_resolved (cityName c) \<noteq> Pending) (listByOwner ex_db (req_userId ex_req))
   \<and> listByOwner ex_db (req_userId ex_req) = [ex_oslo, ex_paris]
   \<and> fetch_fails ex_lower (ex_provider (cityName ex_paris))
   \<and> ex_provider (cityName ex_oslo) = ex_all_resolved (cityName ex_oslo)
   \<and> (\<exists>cs cs'.
          getCities ex_lower ex_req ex_provider ex_db = Some (200, Listing (filter isFavorite cs) cs)
        \<and> getCities ex_lower ex_req ex_all_resolved ex_db = Some (200, Listing (filter isFavorite cs') cs')
        \<and> length cs = 2 \<and> length cs' = 2
        \<and> cs ! 0 = cs' ! 0
        \<and> rec_id (cs ! 1) = city_id ex_paris
        \<and> temperature (currentWeather (cs ! 1)) = None
        \<and> description (currentWeather (cs ! 1)) = ''unavailable''
        \<and> forecast (cs ! 1) = [])"
proof -
  let ?os = "listByOwner ex_db (req_userId ex_req)"
  have h1: "list_all (\<lambda>c. ex_provider (cityName c) \<noteq> Pending) ?os" by code_simp
  have h2: "list_all (\<lambda>c. ex_all_resolved (cityName c) \<noteq> Pending) ?os" by code_simp
  have os: "?os = [ex_oslo, ex_paris]" by code_simp
  have f: "fetch_fails ex_lower (ex_provider (cityName ex_paris))" by code_simp
  have e: "ex_provider (cityName ex_oslo) = ex_all_resolved (cityName ex_oslo)" by code_simp
  from weather_failure_isolated [OF h1 h2] obtain cs cs' where
    r: "getCities ex_lower ex_req ex_provider ex_db = Some (200, Listing (filter isFavorite cs) cs)" and
    r': "getCities ex_lower ex_req ex_all_resolved ex_db = Some (200, Listing (filter isFavorite cs') cs')" and
    len: "length cs = length ?os" "length cs' = length ?os" and
    each: "\<forall>i < length ?os.
              (fetch_fails ex_lower (ex_provider (cityName (?os ! i))) \<longrightarrow>
                 rec_id (cs ! i) = city_id (?os ! i)
               \<and> rec_cityName (cs ! i) = cityName (?os ! i)
               \<and> isFavorite (cs ! i) = favorite (?os ! i)
               \<and> temperature (currentWeather (cs ! i)) = None
               \<and> description (currentWeather (cs ! i)) = ''unavailable''
               \<and> forecast (cs ! i) = [])
            \<and> (ex_provider (cityName (?os ! i)) = ex_all_resolved (cityName (?os ! i))
                  \<longrightarrow> cs ! i = cs' ! i)"
    by blast
  from each [rule_format, of 0] e have c0: "cs ! 0 = cs' ! 0" by (simp add: os)
  from each [rule_format, of 1] f
  have c1: "rec_id (cs ! 1) = city_id ex_paris \<and> temperature (currentWeather (cs ! 1)) = None
            \<and> description (currentWeather (cs ! 1)) = ''unavailable'' \<and> forecast (cs ! 1) = []"
    by (simp add: os)
  from len have l: "length cs = 2" "length cs' = 2" by (simp_all add: os)
  from h1 h2 os f e r r' l c0 c1 show ?thesis by blast
qed

subsection \<open>Adding a city twice\<close>

text \<open>
  Claim C3. Let the collection satisfy its indexes and hold a city of the requesting owner
  whose name is the \<open>cityName\<close> of the request body. Then \<open>createCity\<close> answers 400
  with the message \<open>City already added\<close>, whatever id and date the new document
  would have got, and the collection is unchanged. The controller reads nothing before
  the write: the refusal is that of the unique index in \<open>City.create\<close>.
\<close>

theorem duplicate_city_rejected:
  assumes "store_ok db" and "d \<in> set db" and "userId d = req_userId req"
    and "body req ''cityName'' = Some (cityName d)"
  shows "createCity req oid now db = ((400, Message ''City already added''), db)"
proof -
  from assms(1,2) have "cityName d \<noteq> []" by (simp add: store_ok_def list_all_iff)
  moreover from assms(2,3)
  have "list_ex (\<lambda>e. city_id e = oid \<or> (userId e = req_userId req \<and> cityName e = cityName d)) db"
    by (auto simp: list_ex_iff)
  ultimately have "City_create db oid now (req_userId req) (body req ''cityName'') (body req ''country'')
                     = Inl DuplicateKey"
    using assms(4) by (simp add: City_create_def)
  then show ?thesis by (simp add: createCity_def)
qed

text \<open>The first owner, who has Paris, adds Paris.\<close>

theorem duplicate_city_rejected_witness:
  "store_ok ex_db \<and> ex_paris \<in> set ex_db \<and> userId ex_paris = req_userId ex_req
   \<and> body ex_req ''cityName'' = Some (cityName ex_paris)
   \<and> createCity ex_req 4 300 ex_db = ((400, Message ''City already added''), ex_db)"
proof -
  have h1: "store_ok ex_db" by code_simp
  have h2: "ex_paris \<in> set ex_db" by code_simp
  have h3: "userId ex_paris = req_userId ex_req" by code_simp
  have h4: "body ex_req ''cityName'' = Some (cityName ex_paris)" by code_simp
  from duplicate_city_rejected [OF h1 h2 h3 h4] h1 h2 h3 h4 show ?thesis by blast
qed

subsection \<open>Not found\<close>

text \<open>
  Claim C4, as stated, fails: on the empty collection no city exists under any id for any
  owner, and for the id parameter \<open>abc\<close>, which does not cast to an ObjectId, the
  toggle and the delete answer 500 with the message of the cast error, not 404.
\<close>

theorem malformed_id_counterexample:
  "toggleFavorite ex_bad_req [] = ((500, ErrorMessage CastError), [])
   \<and> deleteCity ex_bad_req [] = ((500, ErrorMessage CastError), [])"
  by code_simp

text \<open>
  Claim C4, amended. When the id parameter casts to an ObjectId \<open>i\<close>, the favorite
  toggle and the delete answer 404 \<open>City not found\<close> exactly when no city with id
  \<open>i\<close> exists for the requesting owner, and then the response and the collection are
  the same whether \<open>i\<close> exists under another owner or under none. When the id
  parameter does not cast, both answer 500 with the message of the cast error and leave
  the collection as it was.
\<close>

theorem not_found_for_wellformed_id:
  "(castObjectId (params_id req) = None \<longrightarrow>
       toggleFavorite req db = ((500, ErrorMessage CastError), db)
     \<and> deleteCity req db = ((500, ErrorMessage CastError), db))
   \<and> (\<forall>i. castObjectId (params_id req) = Some i \<longrightarrow>
         ((fst (toggleFavorite req db) = (404, Message ''City not found''))
            = (\<not> (\<exists>d\<in>set db. city_id d = i \<and> userId d = req_userId req)))
       \<and> ((fst (deleteCity req db) = (404, Message ''City not found''))
            = (\<not> (\<exists>d\<in>set db. city_id d = i \<and> userId d = req_userId req)))
       \<and> (\<not> (\<exists>d\<in>set db. city_id d = i \<and> userId d = req_userId req) \<longrightarrow>
             toggleFavorite req db = ((404, Message ''City not found''), db)
           \<and> deleteCity req db = ((404, Message ''City not found''), db)))"
proof (intro conjI impI allI)
  assume "castObjectId (params_id req) = None"
  then show "toggleFavorite req db = ((500, ErrorMessage CastError), db)"
    and "deleteCity req db = ((500, ErrorMessage CastError), db)"
    by (simp_all add: toggleFavorite_def deleteCity_def)
next
  fix i
  assume i: "castObjectId (params_id req) = Some i"
  show "(fst (toggleFavorite req db) = (404, Message ''City not found''))
          = (\<not> (\<exists>d\<in>set db. city_id d = i \<and> userId d = req_userId req))"
  proof (cases "City_findOne db i (req_userId req)")
    case None
    then have "\<not> (\<exists>d\<in>set db. city_id d = i \<and> userId d = req_userId req)"
      by (simp add: findOne_None)
    with i None show ?thesis by (simp add: toggleFavorite_def)
  next
    case (Some c)
    then have "\<exists>d\<in>set db. city_id d = i \<and> userId d = req_userId req"
      using findOne_Some by blast
    then show ?thesis by (simp add: toggleFavorite_found [OF i Some])
  qed
  show "(fst (deleteCity req db) = (404, Message ''City not found''))
          = (\<not> (\<exists>d\<in>set db. city_id d = i \<and> userId d = req_userId req))"
  proof (cases "City_findOne db i (req_userId req)")
    case None
    then have "\<not> (\<exists>d\<in>set db. city_id d = i \<and> userId d = req_userId req)"
      by (simp add: findOne_None)
    with i None show ?thesis by (simp add: deleteCity_def)
  next
    case (Some c)
    then have "\<exists>d\<in>set db. city_id d = i \<and> userId d = req_userId req"
      using findOne_Some by blast
    then show ?thesis by (simp add: deleteCity_found [OF i Some])
  qed
next
  fix i
  assume i: "castObjectId (params_id req) = Some i"
    and "\<not> (\<exists>d\<in>set db. city_id d = i \<and> userId d = req_userId req)"
  then have "City_findOne db i (req_userId req) = None" by (simp add: findOne_None)
  with i show "toggleFavorite req db = ((404, Message ''City not found''), db)"
    and "deleteCity req db = ((404, Message ''City not found''), db)"
    by (simp_all add: toggleFavorite_def deleteCity_def)
qed

text \<open>
  The second owner names the id of the first owner's Paris: 404, and the collection is
  unchanged.
\<close>

theorem not_found_for_wellformed_id_witness:
  "castObjectId (params_id ex_other_req) = Some 1
   \<and> ex_paris \<in> set ex_db \<and> city_id ex_paris = 1 \<and> userId ex_paris \<noteq> req_userId ex_other_req
   \<and> toggleFavorite ex_other_req ex_db = ((404, Message ''City not found''), ex_db)
   \<and> deleteCity ex_other_req ex_db = ((404, Message ''City not found''), ex_db)"
proof -
  have h1: "castObjectId (params_id ex_other_req) = Some 1" by code_simp
  have h2: "\<not> (\<exists>d\<in>set ex_db. city_id d = 1 \<and> userId d = req_userId ex_other_req)" by code_simp
  have p: "ex_paris \<in> set ex_db" "city_id ex_paris = 1" "userId ex_paris \<noteq> req_userId ex_other_req"
    by code_simp+
  from not_found_for_wellformed_id [of ex_other_req ex_db] h1 h2
  have "toggleFavorite ex_other_req ex_db = ((404, Message ''City not found''), ex_db)
          \<and> deleteCity ex_other_req ex_db = ((404, Message ''City not found''), ex_db)"
    by blast
  with h1 p show ?thesis by blast
qed

subsection \<open>Toggling twice\<close>

text \<open>
  Claim C5. Let the collection satisfy its indexes and let the request name a city \<open>c\<close>
  of the requesting owner. The first toggle answers 200 with \<open>c\<close> whose favorite flag
  is flipped, and stores it; the second toggle answers 200 with \<open>c\<close> itself, and the
  collection is again what it was before the first.
\<close>

theorem toggleFavorite_involutive:
  assumes "store_ok db" and "c \<in> set db" and "userId c = req_userId req"
    and "castObjectId (params_id req) = Some (city_id c)"
  shows "fst (toggleFavorite req db) = (200, CityJson (c\<lparr>favorite := \<not> favorite c\<rparr>))
       \<and> c\<lparr>favorite := \<not> favorite c\<rparr> \<in> set (snd (toggleFavorite req db))
       \<and> fst (toggleFavorite req (snd (toggleFavorite req db))) = (200, CityJson c)
       \<and> snd (toggleFavorite req (snd (toggleFavorite req db))) = db"
proof -
  let ?c' = "c\<lparr>favorite := \<not> favorite c\<rparr>"
  let ?db' = "save ?c' db"
  from assms(1) have dist: "distinct (map city_id db)" by (simp add: store_ok_def)
  from findOne_member [OF dist assms(2)] assms(3)
  have f1: "City_findOne db (city_id c) (req_userId req) = Some c" by simp
  have t1: "toggleFavorite req db = ((200, CityJson ?c'), ?db')"
    using assms(4) f1 by (rule toggleFavorite_found)
  have dist': "distinct (map city_id ?db')" using dist by (simp add: map_city_id_save)
  have mem': "?c' \<in> set ?db'" using dist assms(2) by (rule save_member)
  from findOne_member [OF dist' mem'] assms(3)
  have f2: "City_findOne ?db' (city_id c) (req_userId req) = Some ?c'" by simp
  have t2: "toggleFavorite req ?db' = ((200, CityJson c), save c ?db')"
    using toggleFavorite_found [OF assms(4) f2] by simp
  have "save c ?db' = save c db" by (simp add: save_save)
  also have "\<dots> = db" using dist assms(2) by (intro save_same [of db c]) simp_all
  finally have restored: "save c ?db' = db" .
  from t1 t2 restored mem' show ?thesis by simp
qed

text \<open>The first owner toggles Paris twice.\<close>

theorem toggleFavorite_involutive_witness:
  "store_ok ex_db \<and> ex_paris \<in> set ex_db \<and> userId ex_paris = req_userId ex_req
   \<and> castObjectId (params_id ex_req) = Some (city_id ex_paris)
   \<and> fst (toggleFavorite ex_req ex_db) = (200, CityJson (ex_paris\<lparr>favorite := \<not> favorite ex_paris\<rparr>))
   \<and> ex_paris\<lparr>favorite := \<not> favorite ex_paris\<rparr> \<in> set (snd (toggleFavorite ex_req ex_db))
   \<and> fst (toggleFavorite ex_req (snd (toggleFavorite ex_req ex_db))) = (200, CityJson ex_paris)
   \<and> snd (toggleFavorite ex_req (snd (toggleFavorite ex_req ex_db))) = ex_db"
proof -
  have h1: "store_ok ex_db" by code_simp
  have h2: "ex_paris \<in> set ex_db" by code_simp
  have h3: "userId ex_paris = req_userId ex_req" by code_simp
  have h4: "castObjectId (params_id ex_req) = Some (city_id ex_paris)" by code_simp
  from toggleFavorite_involutive [OF h1 h2 h3 h4] h1 h2 h3 h4 show ?thesis by blast
qed

subsection \<open>A weather call that never settles\<close>

text \<open>
  Claim C6, as stated, fails: the weather calls carry no timeout, and when the call for
  Paris never settles the listing of the first owner never answers.
\<close>

theorem no_timeout_counterexample:
  "getCities ex_lower ex_req ex_hanging ex_db = None"
  by code_simp

text \<open>
  Claim C6, amended. The per-city weather calls carry no timeout: the listing answers
  exactly when the weather call of every city of the owner settles, by resolving or by
  rejecting. A call that never settles leaves the request without a response.
\<close>

theorem getCities_responds_iff_settled:
  "(getCities toLowerCase req w db \<noteq> None)
     = list_all (\<lambda>c. w (cityName c) \<noteq> Pending) (listByOwner db (req_userId req))"
proof (cases "list_all (\<lambda>c. w (cityName c) \<noteq> Pending) (listByOwner db (req_userId req))")
  case True
  from getCities_settled [OF True] obtain cs where
    "getCities toLowerCase req w db = Some (200, Listing (filter isFavorite cs) cs)" by blast
  with True show ?thesis by simp
next
  case False
  then have "getCities toLowerCase req w db = None" by (simp only: getCities_eq if_False)
  with False show ?thesis by simp
qed

text \<open>With the provider that rejects for Paris and resolves for Oslo the listing answers.\<close>

theorem getCities_responds_iff_settled_witness:
  "list_all (\<lambda>c. ex_provider (cityName c) \<noteq> Pending) (listByOwner ex_db (req_userId ex_req))
   \<and> getCities ex_lower ex_req ex_provider ex_db \<noteq> None"
proof -
  have h: "list_all (\<lambda>c. ex_provider (cityName c) \<noteq> Pending) (listByOwner ex_db (req_userId ex_req))"
    by code_simp
  with getCities_responds_iff_settled [of ex_lower ex_req ex_provider ex_db] show ?thesis by simp
qed

subsection \<open>Favorites\<close>

text \<open>
  Claim C7. Every listing response is 200 with \<open>favorites\<close> and \<open>cities\<close> such that
  \<open>favorites\<close> is \<open>cities\<close> filtered by \<open>isFavorite\<close>: a subsequence of
  \<open>cities\<close>, so in the same relative order, holding exactly the records whose
  \<open>isFavorite\<close> is true; and \<open>cities\<close> has one record for each city of the
  owner-scoped listing, in its order, with the id and the favorite flag of that city.
\<close>

theorem favorites_partition:
  assumes "getCities toLowerCase req w db = Some resp"
  shows "\<exists>cs. resp = (200, Listing (filter isFavorite cs) cs)
           \<and> subseq (filter isFavorite cs) cs
           \<and> set (filter isFavorite cs) = {r \<in> set cs. isFavorite r}
           \<and> map rec_id cs = map city_id (listByOwner db (req_userId req))
           \<and> map isFavorite cs = map favorite (listByOwner db (req_userId req))"
proof -
  from getCities_records [OF assms] obtain cs where
    "resp = (200, Listing (filter isFavorite cs) cs)"
    "map rec_id cs = map city_id (listByOwner db (req_userId req))"
    "map isFavorite cs = map favorite (listByOwner db (req_userId req))"
    by blast
  moreover have "subseq (filter isFavorite cs) cs" by simp
  moreover have "set (filter isFavorite cs) = {r \<in> set cs. isFavorite r}" by simp
  ultimately show ?thesis by blast
qed

text \<open>The first owner's listing when every weather call rejects: Oslo, then the favorite Paris.\<close>

theorem favorites_partition_witness:
  "getCities ex_lower ex_req ex_down ex_db
     = Some (200, Listing [unavailable ex_paris] [unavailable ex_oslo, unavailable ex_paris])
   \<and> [unavailable ex_paris] = filter isFavorite [unavailable ex_oslo, unavailable ex_paris]
   \<and> subseq [unavailable ex_paris] [unavailable ex_oslo, unavailable ex_paris]
   \<and> map rec_id [unavailable ex_oslo, unavailable ex_paris]
       = map city_id (listByOwner ex_db (req_userId ex_req))"
proof -
  have h: "getCities ex_lower ex_req ex_down ex_db
     = Some (200, Listing [unavailable ex_paris] [unavailable ex_oslo, unavailable ex_paris])"
    by code_simp
  from favorites_partition [OF h] obtain cs where
    eq: "(200::nat, Listing [unavailable ex_paris] [unavailable ex_oslo, unavailable ex_paris])
       = (200, Listing (filter isFavorite cs) cs)"
    and sub: "subseq (filter isFavorite cs) cs"
    and ids: "map rec_id cs = map city_id (listByOwner ex_db (req_userId ex_req))"
    by blast
  note inj = eq [unfolded prod.inject json.inject, THEN conjunct2]
  note cs = inj [THEN conjunct2, symmetric]
  note fa = inj [THEN conjunct1, symmetric]
  from fa have fa': "[unavailable ex_paris] = filter isFavorite [unavailable ex_oslo, unavailable ex_paris]"
    by (simp only: cs)
  from sub have sub': "subseq [unavailable ex_paris] [unavailable ex_oslo, unavailable ex_paris]"
    by (simp only: fa) (simp only: cs)
  from ids have ids': "map rec_id [unavailable ex_oslo, unavailable ex_paris]
       = map city_id (listByOwner ex_db (req_userId ex_req))"
    by (simp only: cs)
  from h fa' sub' ids' show ?thesis by blast
qed

subsection \<open>Order of the listing\<close>

text \<open>
  Claim C8. For every owner, the cities returned by the owner-scoped listing are ordered
  by \<open>addedAt\<close> descending, the most recently added first; the listing holds exactly
  the owner's documents, each as often as the collection does.
\<close>

theorem listByOwner_addedAt_descending:
  "sorted_wrt (\<lambda>a b. addedAt b \<le> addedAt a) (listByOwner db uid)
     \<and> mset (listByOwner db uid) = mset (filter (\<lambda>d. userId d = uid) db)"
proof
  show "sorted_wrt (\<lambda>a b. addedAt b \<le> addedAt a) (listByOwner db uid)"
    by (rule sorted_listByOwner)
  show "mset (listByOwner db uid) = mset (filter (\<lambda>d. userId d = uid) db)"
    by (rule mset_listByOwner)
qed

subsection \<open>Forecast and rounding\<close>




subsection \<open>The owner of a new city\<close>

text \<open>
  Claim C10. \<open>createCity\<close> takes the owner of the new city from \<open>req.userId\<close> alone:
  two requests with the same authenticated identity whose bodies agree on \<open>cityName\<close>
  and \<open>country\<close> have the same response and leave the same collection, whatever else
  their bodies hold, a \<open>userId\<close> or an \<open>ownerId\<close> included; and the document of a
  201 response is appended to the collection with \<open>userId\<close> equal to \<open>req.userId\<close>.
\<close>

theorem createCity_owner_from_identity:
  "(req_userId req1 = req_userId req2 \<and> body req1 ''cityName'' = body req2 ''cityName''
      \<and> body req1 ''country'' = body req2 ''country''
      \<longrightarrow> createCity req1 oid now db = createCity req2 oid now db)
   \<and> (\<forall>c db'. createCity req1 oid now db = ((201, CityJson c), db')
         \<longrightarrow> userId c = req_userId req1 \<and> db' = db @ [c])"
proof (intro conjI impI allI)
  assume "req_userId req1 = req_userId req2 \<and> body req1 ''cityName'' = body req2 ''cityName''
      \<and> body req1 ''country'' = body req2 ''country''"
  then show "createCity req1 oid now db = createCity req2 oid now db"
    by (simp add: createCity_def)
next
  fix c db'
  assume r: "createCity req1 oid now db = ((201, CityJson c), db')"
  show "userId c = req_userId req1"
  proof (cases "City_create db oid now (req_userId req1) (body req1 ''cityName'') (body req1 ''country'')")
    case (Inl e)
    with r show ?thesis by (simp add: createCity_def split: if_splits)
  next
    case (Inr p)
    with r have "p = (c, db')" by (cases p) (simp add: createCity_def)
    with Inr show ?thesis
      by (auto simp: City_create_def Let_def split: option.splits if_splits)
  qed
  show "db' = db @ [c]"
  proof (cases "City_create db oid now (req_userId req1) (body req1 ''cityName'') (body req1 ''country'')")
    case (Inl e)
    with r show ?thesis by (simp add: createCity_def split: if_splits)
  next
    case (Inr p)
    with r have "p = (c, db')" by (cases p) (simp add: createCity_def)
    with Inr show ?thesis
      by (auto simp: City_create_def Let_def split: option.splits if_splits)
  qed
qed

text \<open>
  A body with \<open>userId\<close> and \<open>ownerId\<close> of the second owner against the same body
  without them, both sent by the first owner: the same response, and Rome is stored
  for the first owner.
\<close>

theorem createCity_owner_from_identity_witness:
  "req_userId ex_req_owner_in_body = req_userId ex_req_plain
   \<and> body ex_req_owner_in_body ''cityName'' = body ex_req_plain ''cityName''
   \<and> body ex_req_owner_in_body ''country'' = body ex_req_plain ''country''
   \<and> body ex_req_owner_in_body ''userId'' = Some ''000000000000000000000002''
   \<and> body ex_req_plain ''userId'' = None
   \<and> createCity ex_req_owner_in_body 4 300 ex_db = createCity ex_req_plain 4 300 ex_db
   \<and> createCity ex_req_owner_in_body 4 300 ex_db = ((201, CityJson ex_rome), ex_db @ [ex_rome])
   \<and> userId ex_rome = req_userId ex_req_owner_in_body"
proof -
  have h: "req_userId ex_req_owner_in_body = req_userId ex_req_plain"
    "body ex_req_owner_in_body ''cityName'' = body ex_req_plain ''cityName''"
    "body ex_req_owner_in_body ''country'' = body ex_req_plain ''country''"
    by code_simp+
  have b: "body ex_req_owner_in_body ''userId'' = Some ''000000000000000000000002''"
    "body ex_req_plain ''userId'' = None"
    by code_simp+
  have r: "createCity ex_req_owner_in_body 4 300 ex_db = ((201, CityJson ex_rome), ex_db @ [ex_rome])"
    by code_simp
  from createCity_owner_from_identity [of ex_req_owner_in_body ex_req_plain 4 300 ex_db] h r
  have "createCity ex_req_owner_in_body 4 300 ex_db = createCity ex_req_plain 4 300 ex_db"
    and "userId ex_rome = req_userId ex_req_owner_in_body"
    by blast+
  with h b r show ?thesis by simp
qed

end
